theory Spec2Isabelle
  imports Complex_Main "HOL-Library.Multiset" "HOL-Library.Sublist"
begin

section \<open>Strings\<close>

text \<open>
  A Python \<^verbatim>\<open>str\<close> is modelled as a \<^typ>\<open>string\<close>, each character read as a code point
  in the range U+0000 .. U+00FF (so the Danish letters of the synonym table are single
  characters). Text with code points beyond U+00FF is outside the model.
\<close>

text \<open>
  \<^verbatim>\<open>str.lower()\<close> on that range: the letters A..Z and the letters U+00C0 .. U+00DE, the
  multiplication sign U+00D7 apart, move up by 32; every other character stays.
\<close>

definition lower_char :: "char \<Rightarrow> char" where
  "lower_char c =
     (let n = (of_char c :: nat)
      in if (65 \<le> n \<and> n \<le> 90) \<or> (192 \<le> n \<and> n \<le> 222 \<and> n \<noteq> 215)
         then char_of (n + 32) else c)"

definition lower :: "string \<Rightarrow> string" where
  "lower s = map lower_char s"

text \<open>\<^verbatim>\<open>s.startswith(p)\<close>, used to write out the substring test.\<close>

fun startswith :: "string \<Rightarrow> string \<Rightarrow> bool" where
  "startswith s [] = True"
| "startswith [] (p # ps) = False"
| "startswith (c # cs) (p # ps) = (c = p \<and> startswith cs ps)"

text \<open>\<^verbatim>\<open>needle in haystack\<close> on strings: the needle occurs as a contiguous run.\<close>

fun str_in :: "string \<Rightarrow> string \<Rightarrow> bool" where
  "str_in needle [] = (needle = [])"
| "str_in needle (c # cs) = (startswith (c # cs) needle \<or> str_in needle cs)"

text \<open>\<^verbatim>\<open>sep.join(parts)\<close>.\<close>

fun join :: "string \<Rightarrow> string list \<Rightarrow> string" where
  "join sep [] = []"
| "join sep [p] = p"
| "join sep (p # q # ps) = p @ sep @ join sep (q # ps)"

section \<open>Data model\<close>

text \<open>The pydantic models of \<^verbatim>\<open>main.py\<close>. An \<^verbatim>\<open>Optional\<close> field is an option.\<close>

record SMKItem =
  object_number :: string
  titles :: "string list"
  creator :: string
  image_thumbnail :: "string option"
  description :: "string option"

text \<open>
  The two fields of \<^verbatim>\<open>EnrichmentData\<close> carry non-ASCII names in the source; they are
  transliterated here: \<open>kalai_navn\<close> is the first field (Tamil letters followed by
  \<^verbatim>\<open>_navn\<close>), \<open>aghtsera\<close> is the second (Georgian for "description").
\<close>

record EnrichmentData =
  kalai_navn :: "string list option"
  aghtsera :: "string list option"

record CombinedResult =
  item :: SMKItem
  enrichment :: EnrichmentData
  relevance :: real

text \<open>\<^verbatim>\<open>EnrichmentData()\<close>: both fields take their default \<^verbatim>\<open>None\<close>.\<close>

definition EnrichmentData_empty :: EnrichmentData where
  "EnrichmentData_empty = \<lparr>kalai_navn = None, aghtsera = None\<rparr>"

section \<open>Relevance\<close>

text \<open>
  Scores are Python floats; they are modelled as exact reals. The sixteen sums the scorer
  can reach are ordered alike in both readings, so clamping and ranking are not affected.
\<close>

text \<open>
  The loop over the titles: the first title that contains the query adds 0.5 and
  leaves the loop (\<^verbatim>\<open>break\<close>).
\<close>

fun title_loop :: "string \<Rightarrow> string list \<Rightarrow> real \<Rightarrow> real" where
  "title_loop query_lower [] score = score"
| "title_loop query_lower (title # rest) score =
     (if str_in query_lower (lower title) then score + 0.5
      else title_loop query_lower rest score)"

text \<open>The loop over the enrichment descriptions: the first match adds 0.2 and leaves.\<close>

fun desc_loop :: "string \<Rightarrow> string list \<Rightarrow> real \<Rightarrow> real" where
  "desc_loop query_lower [] score = score"
| "desc_loop query_lower (desc # rest) score =
     (if str_in query_lower (lower desc) then score + 0.2
      else desc_loop query_lower rest score)"

text \<open>
  \<^verbatim>\<open>calculate_relevance\<close>. \<^verbatim>\<open>item.description and ...\<close> is false for \<^verbatim>\<open>None\<close> and for
  the empty string; \<^verbatim>\<open>enrichment.<field>\<close> is false for \<^verbatim>\<open>None\<close> and for the empty
  list. A model instance itself is always true, and the field always exists, so
  \<^verbatim>\<open>if enrichment\<close> and \<^verbatim>\<open>hasattr\<close> do not branch.
\<close>

definition calculate_relevance :: "SMKItem \<Rightarrow> EnrichmentData \<Rightarrow> string \<Rightarrow> real" where
  "calculate_relevance it enr query =
     (let score0 = 0;
          query_lower = lower query;
          score1 = title_loop query_lower (titles it) score0;
          score2 = (if str_in query_lower (lower (creator it)) then score1 + 0.3 else score1);
          score3 = (case description it of
                      None \<Rightarrow> score2
                    | Some d \<Rightarrow>
                        if d \<noteq> [] \<and> str_in query_lower (lower d) then score2 + 0.2
                        else score2);
          score4 = (case aghtsera enr of
                      None \<Rightarrow> score3
                    | Some descs \<Rightarrow>
                        if descs \<noteq> [] then desc_loop query_lower descs score3 else score3)
      in min 1 score4)"

section \<open>Query normaliser\<close>

text \<open>
  The synonym table of \<^verbatim>\<open>get_search_query\<close>, in the insertion order the dictionary
  keeps. The second key is \<^verbatim>\<open>portr\<close>, the letter U+00E6, \<^verbatim>\<open>t\<close>.
\<close>

definition synonyms :: "(string \<times> string list) list" where
  "synonyms =
     [(''landskab'', [''landskab'', ''natur'', ''udsigt'', ''panorama'']),
      (''portr'' @ [CHR 0xE6] @ ''t'',
         [''portr'' @ [CHR 0xE6] @ ''t'', ''ansigt'', ''buste'', ''person'']),
      (''abstrakt'', [''abstrakt'', ''nonfigurativ'', ''forml'' @ [CHR 0xF8] @ ''s'']),
      (''blomst'', [''blomst'', ''plante'', ''flora'', ''rose'', ''tulipan'', ''lilje''])]"

text \<open>
  The loop over the table: the first key found in the lowercased query replaces the
  expanded query by the OR-expression of its synonyms, and the loop ends.
\<close>

fun synonym_loop :: "(string \<times> string list) list \<Rightarrow> string \<Rightarrow> string" where
  "synonym_loop [] expanded_query = expanded_query"
| "synonym_loop ((key, syns) # rest) expanded_query =
     (if str_in key expanded_query then join '' OR '' syns
      else synonym_loop rest expanded_query)"

text \<open>
  \<^verbatim>\<open>get_search_query\<close>, with the table as an argument. The function computes
  \<^verbatim>\<open>expanded_query\<close> and returns \<^verbatim>\<open>query\<close>.
\<close>

definition get_search_query_with :: "(string \<times> string list) list \<Rightarrow> string \<Rightarrow> string" where
  "get_search_query_with table query =
     (let expanded_query = synonym_loop table (lower query) in query)"

definition get_search_query :: "string \<Rightarrow> string" where
  "get_search_query query = get_search_query_with synonyms query"

section \<open>Fuzzy matching\<close>

text \<open>Length of a longest common subsequence.\<close>

fun lcs_len :: "string \<Rightarrow> string \<Rightarrow> nat" where
  "lcs_len [] t = 0"
| "lcs_len (c # s) [] = 0"
| "lcs_len (c # s) (d # t) =
     (if c = d then Suc (lcs_len s t) else max (lcs_len s (d # t)) (lcs_len (c # s) t))"

text \<open>
  Modelled from the spec: the scorer \<^verbatim>\<open>fuzz.ratio\<close> belongs to the rapidfuzz library,
  whose code is not part of the repository. The spec calls it a normalized
  edit-distance-style ratio on a 0 to 100 scale; rapidfuzz documents it as the normalized
  Indel similarity: with insertions and deletions only, the distance of two strings is the
  sum of their lengths minus twice the length of a longest common subsequence, it is
  divided by the sum of the lengths (0 when both are empty), and the ratio is 100 times
  one minus that quotient. The strings are compared as they are, without case folding.
\<close>

definition indel_distance :: "string \<Rightarrow> string \<Rightarrow> nat" where
  "indel_distance s1 s2 = length s1 + length s2 - 2 * lcs_len s1 s2"

definition ratio :: "string \<Rightarrow> string \<Rightarrow> real" where
  "ratio s1 s2 =
     (let maximum = length s1 + length s2;
          dist = indel_distance s1 s2;
          norm_dist = (if maximum = 0 then 0 else real dist / real maximum)
      in (1 - norm_dist) * 100)"

text \<open>
  Modelled from the spec: \<^verbatim>\<open>process.extractOne\<close> is rapidfuzz code too. Its documented
  result is the triple (choice, score, index) of the best scoring choice, the earliest one
  among equals, and \<^verbatim>\<open>None\<close> when there is no choice.
\<close>

fun extractOne_loop ::
  "(string \<Rightarrow> string \<Rightarrow> real) \<Rightarrow> string \<Rightarrow> string list \<Rightarrow> nat \<Rightarrow>
   (string \<times> real \<times> nat) option \<Rightarrow> (string \<times> real \<times> nat) option" where
  "extractOne_loop scorer query [] i result = result"
| "extractOne_loop scorer query (choice # rest) i result =
     (let score = scorer query choice;
          result' = (case result of
                       None \<Rightarrow> Some (choice, score, i)
                     | Some (c, s, k) \<Rightarrow> if score > s then Some (choice, score, i) else result)
      in extractOne_loop scorer query rest (Suc i) result')"

definition extractOne ::
  "(string \<Rightarrow> string \<Rightarrow> real) \<Rightarrow> string \<Rightarrow> string list \<Rightarrow> (string \<times> real \<times> nat) option" where
  "extractOne scorer query choices = extractOne_loop scorer query choices 0 None"

section \<open>Exceptions\<close>

text \<open>
  The exceptions the code can meet. \<open>RequestException\<close> stands for the whole family of
  the requests library (connection errors, \<^verbatim>\<open>HTTPError\<close> of \<^verbatim>\<open>raise_for_status\<close>, the
  JSON decoding error of \<^verbatim>\<open>response.json()\<close>); \<open>ValidationError\<close> for a payload the
  models reject; \<open>TypeError\<close> for indexing \<^verbatim>\<open>None\<close>. \<open>HTTPException\<close> carries the status
  code and which of the two detail messages of the source it was raised with.
\<close>

datatype detail = SMK_fetch_error | Unexpected_error

datatype py_exception =
    RequestException
  | ValidationError
  | TypeError
  | HTTPException nat detail

text \<open>
  The fuzzy stage of \<^verbatim>\<open>search_smk\<close>: \<^verbatim>\<open>best_match[1]\<close> raises \<^verbatim>\<open>TypeError\<close> when
  \<^verbatim>\<open>extractOne\<close> returned \<^verbatim>\<open>None\<close>.
\<close>

fun fuzzy_loop :: "string \<Rightarrow> SMKItem list \<Rightarrow> SMKItem list \<Rightarrow> py_exception + SMKItem list" where
  "fuzzy_loop query [] best_match_items = Inr best_match_items"
| "fuzzy_loop query (it # rest) best_match_items =
     (case extractOne ratio query (titles it) of
        None \<Rightarrow> Inl TypeError
      | Some (choice, score, key) \<Rightarrow>
          if score \<ge> 80 then fuzzy_loop query rest (best_match_items @ [it])
          else fuzzy_loop query rest best_match_items)"

definition fuzzy_stage :: "string \<Rightarrow> SMKItem list \<Rightarrow> py_exception + SMKItem list" where
  "fuzzy_stage query items =
     (case fuzzy_loop query items [] of
        Inl e \<Rightarrow> Inl e
      | Inr best_match_items \<Rightarrow> Inr (if best_match_items = [] then items else best_match_items))"

section \<open>The two upstream services\<close>

text \<open>
  What a \<^verbatim>\<open>requests.get\<close> call can meet. \<open>NoReply\<close>: the call itself raises (no
  connection, time-out, bad URL). Otherwise there is a response with a status code and a
  body. \<open>NotJson\<close>: \<^verbatim>\<open>response.json()\<close> raises. \<open>Invalid\<close>: the body is JSON, yet reading
  it or building the models from it raises. \<open>Valid x\<close>: the body is JSON and the models
  built from it are \<open>x\<close> (a missing \<^verbatim>\<open>items\<close> key gives the empty list, a missing
  \<^verbatim>\<open>data\<close> key the empty enrichment, as the defaults of \<^verbatim>\<open>.get\<close> say).
\<close>

datatype 'a body = NotJson | Invalid | Valid 'a

datatype 'a reply = NoReply | Reply nat "'a body"

text \<open>
  The outside world of one search: the reply of the catalog to a search term and the reply
  of the enrichment service to an object number.
\<close>

record world =
  smk_api :: "string \<Rightarrow> SMKItem list reply"
  enrichment_api :: "string \<Rightarrow> EnrichmentData reply"

text \<open>\<^verbatim>\<open>response.raise_for_status()\<close> raises for the 4xx and 5xx codes.\<close>

definition raises_for_status :: "nat \<Rightarrow> bool" where
  "raises_for_status code = (400 \<le> code \<and> code < 600)"

text \<open>The \<^verbatim>\<open>try\<close> block of \<^verbatim>\<open>fetch_smk_data\<close>.\<close>

definition fetch_smk_data_try :: "world \<Rightarrow> string \<Rightarrow> py_exception + SMKItem list" where
  "fetch_smk_data_try w query =
     (case smk_api w query of
        NoReply \<Rightarrow> Inl RequestException
      | Reply code b \<Rightarrow>
          if raises_for_status code then Inl RequestException
          else (case b of
                  NotJson \<Rightarrow> Inl RequestException
                | Invalid \<Rightarrow> Inl ValidationError
                | Valid items \<Rightarrow> if items = [] then Inr [] else Inr items))"

text \<open>\<^verbatim>\<open>fetch_smk_data\<close>: both handlers raise \<^verbatim>\<open>HTTPException\<close> with status 500.\<close>

definition fetch_smk_data :: "world \<Rightarrow> string \<Rightarrow> py_exception + SMKItem list" where
  "fetch_smk_data w query =
     (case fetch_smk_data_try w query of
        Inl RequestException \<Rightarrow> Inl (HTTPException 500 SMK_fetch_error)
      | Inl e \<Rightarrow> Inl (HTTPException 500 Unexpected_error)
      | Inr items \<Rightarrow> Inr items)"

text \<open>The \<^verbatim>\<open>try\<close> block of \<^verbatim>\<open>fetch_enrichment_data\<close>.\<close>

definition fetch_enrichment_data_try :: "world \<Rightarrow> string \<Rightarrow> py_exception + EnrichmentData" where
  "fetch_enrichment_data_try w object_no =
     (case enrichment_api w object_no of
        NoReply \<Rightarrow> Inl RequestException
      | Reply code b \<Rightarrow>
          if raises_for_status code then Inl RequestException
          else (case b of
                  NotJson \<Rightarrow> Inl RequestException
                | Invalid \<Rightarrow> Inl ValidationError
                | Valid d \<Rightarrow> Inr d))"

text \<open>
  \<^verbatim>\<open>fetch_enrichment_data\<close>: both handlers log and return \<^verbatim>\<open>EnrichmentData()\<close>. The
  result type still has room for an exception, so that its absence is a theorem.
\<close>

definition fetch_enrichment_data :: "world \<Rightarrow> string \<Rightarrow> py_exception + EnrichmentData" where
  "fetch_enrichment_data w object_no =
     (case fetch_enrichment_data_try w object_no of
        Inl RequestException \<Rightarrow> Inr EnrichmentData_empty
      | Inl e \<Rightarrow> Inr EnrichmentData_empty
      | Inr d \<Rightarrow> Inr d)"

section \<open>Expansion\<close>

text \<open>\<^verbatim>\<open>find_related_works\<close> returns the empty list for every object number.\<close>

definition find_related_works :: "string \<Rightarrow> CombinedResult list" where
  "find_related_works object_no = []"

text \<open>
  \<^verbatim>\<open>filter_and_expand_results\<close> (main.py:147-173) is declared with a plain \<^verbatim>\<open>def\<close>, and
  its body holds an \<^verbatim>\<open>await\<close> expression (line 169). Python does not accept such a
  function (\<^verbatim>\<open>SyntaxError: 'await' outside async function\<close>), so the function has no run
  and no definition here. What is kept of its text is the test that guards its request
  for related works (lines 164-167): the description field is there and not empty, and
  the loop over its entries finds one that contains the query.
\<close>

fun desc_matches :: "string \<Rightarrow> string list \<Rightarrow> bool" where
  "desc_matches query [] = False"
| "desc_matches query (desc # rest) =
     (if str_in (lower query) (lower desc) then True else desc_matches query rest)"

definition expansion_triggered :: "EnrichmentData \<Rightarrow> string \<Rightarrow> bool" where
  "expansion_triggered enr query =
     (case aghtsera enr of
        None \<Rightarrow> False
      | Some descs \<Rightarrow> descs \<noteq> [] \<and> desc_matches query descs)"

section \<open>The search operation\<close>

text \<open>The loop that fetches the enrichment of each kept item and scores it.\<close>

fun results_loop ::
  "world \<Rightarrow> string \<Rightarrow> SMKItem list \<Rightarrow> CombinedResult list \<Rightarrow> py_exception + CombinedResult list" where
  "results_loop w query [] results = Inr results"
| "results_loop w query (it # rest) results =
     (case fetch_enrichment_data w (object_number it) of
        Inl e \<Rightarrow> Inl e
      | Inr enrichment_data \<Rightarrow>
          (let rel = calculate_relevance it enrichment_data query;
               combined_result = \<lparr>item = it, enrichment = enrichment_data, relevance = rel\<rparr>
           in results_loop w query rest (results @ [combined_result])))"

text \<open>
  \<^verbatim>\<open>results.sort(key=..., reverse=True)\<close>: a stable sort; with \<^verbatim>\<open>reverse\<close> the list is
  reversed, sorted upwards stably, and reversed again, which keeps equal keys in their
  first order.
\<close>

definition sort_reverse :: "CombinedResult list \<Rightarrow> CombinedResult list" where
  "sort_reverse results = rev (sort_key relevance (rev results))"

text \<open>
  The \<^verbatim>\<open>try\<close> block of \<^verbatim>\<open>search_smk\<close> down to the sort (main.py:199-214): the catalog
  fetch, the fuzzy stage, the scoring loop and the sort. Its value is the list
  \<^verbatim>\<open>results\<close> as it stands before line 215.
\<close>

definition search_smk_ranked :: "world \<Rightarrow> string \<Rightarrow> py_exception + CombinedResult list" where
  "search_smk_ranked w query =
     (case fetch_smk_data w query of
        Inl e \<Rightarrow> Inl e
      | Inr items \<Rightarrow>
          (case fuzzy_stage query items of
             Inl e \<Rightarrow> Inl e
           | Inr best_match_items \<Rightarrow>
               (case results_loop w query best_match_items [] of
                  Inl e \<Rightarrow> Inl e
                | Inr results \<Rightarrow> Inr (sort_reverse results))))"

text \<open>
  The whole \<^verbatim>\<open>try\<close> block. Line 215 calls \<^verbatim>\<open>filter_and_expand_results\<close>, the function
  Python does not accept, so the source does not say what that call gives. Its outcome is
  an argument of the model: \<open>expansion results query\<close> is a list or an exception, and
  what is proved of \<^verbatim>\<open>search_smk\<close> is proved for every such outcome.
\<close>

definition search_smk_try ::
  "(CombinedResult list \<Rightarrow> string \<Rightarrow> py_exception + CombinedResult list) \<Rightarrow>
   world \<Rightarrow> string \<Rightarrow> py_exception + CombinedResult list" where
  "search_smk_try expansion w query =
     (case search_smk_ranked w query of
        Inl e \<Rightarrow> Inl e
      | Inr results \<Rightarrow> expansion results query)"

text \<open>
  \<^verbatim>\<open>search_smk\<close>: an \<^verbatim>\<open>HTTPException\<close> is raised again as it is, any other exception
  becomes an \<^verbatim>\<open>HTTPException\<close> with status 500.
\<close>

definition search_smk ::
  "(CombinedResult list \<Rightarrow> string \<Rightarrow> py_exception + CombinedResult list) \<Rightarrow>
   world \<Rightarrow> string \<Rightarrow> py_exception + CombinedResult list" where
  "search_smk expansion w query =
     (case search_smk_try expansion w query of
        Inl (HTTPException code d) \<Rightarrow> Inl (HTTPException code d)
      | Inl e \<Rightarrow> Inl (HTTPException 500 Unexpected_error)
      | Inr results \<Rightarrow> Inr results)"

section \<open>The scorer in the words of the specification\<close>

text \<open>
  The four contributions as the specification lists them, each decided on the lowercased
  query and the lowercased field. \<open>description_contribution_claimed\<close> asks only that the
  description is there and contains the query; \<open>description_contribution\<close> asks that it
  is not empty either.
\<close>

definition title_contribution :: "SMKItem \<Rightarrow> string \<Rightarrow> real" where
  "title_contribution it query =
     (if \<exists>t\<in>set (titles it). str_in (lower query) (lower t) then 0.5 else 0)"

definition creator_contribution :: "SMKItem \<Rightarrow> string \<Rightarrow> real" where
  "creator_contribution it query =
     (if str_in (lower query) (lower (creator it)) then 0.3 else 0)"

definition description_contribution_claimed :: "SMKItem \<Rightarrow> string \<Rightarrow> real" where
  "description_contribution_claimed it query =
     (case description it of
        None \<Rightarrow> 0
      | Some d \<Rightarrow> if str_in (lower query) (lower d) then 0.2 else 0)"

definition description_contribution :: "SMKItem \<Rightarrow> string \<Rightarrow> real" where
  "description_contribution it query =
     (case description it of
        None \<Rightarrow> 0
      | Some d \<Rightarrow> if d \<noteq> [] \<and> str_in (lower query) (lower d) then 0.2 else 0)"

definition enrichment_contribution :: "EnrichmentData \<Rightarrow> string \<Rightarrow> real" where
  "enrichment_contribution enr query =
     (case aghtsera enr of
        None \<Rightarrow> 0
      | Some ds \<Rightarrow>
          if ds \<noteq> [] \<and> (\<exists>d\<in>set ds. str_in (lower query) (lower d)) then 0.2 else 0)"

definition claimed_relevance :: "SMKItem \<Rightarrow> EnrichmentData \<Rightarrow> string \<Rightarrow> real" where
  "claimed_relevance it enr query =
     min 1 (title_contribution it query + creator_contribution it query
            + description_contribution_claimed it query + enrichment_contribution enr query)"

text \<open>A status that is not a success: any code outside 200 .. 299.\<close>

definition non_success_status :: "nat \<Rightarrow> bool" where
  "non_success_status code = (\<not> (200 \<le> code \<and> code < 300))"

section \<open>Derived notions\<close>

text \<open>
  The enrichment \<^verbatim>\<open>search_smk\<close> ends up with for an object number, and the combined
  result its scoring loop builds for an item.
\<close>

definition enrichment_for :: "world \<Rightarrow> string \<Rightarrow> EnrichmentData" where
  "enrichment_for w object_no =
     (case fetch_enrichment_data_try w object_no of
        Inl e \<Rightarrow> EnrichmentData_empty
      | Inr d \<Rightarrow> d)"

definition combined :: "world \<Rightarrow> string \<Rightarrow> SMKItem \<Rightarrow> CombinedResult" where
  "combined w query it =
     \<lparr>item = it, enrichment = enrichment_for w (object_number it),
      relevance = calculate_relevance it (enrichment_for w (object_number it)) query\<rparr>"

text \<open>
  What the text of the expansion loop writes for one result (main.py:159-172): the result,
  followed, when the test succeeds, by what the request for related works gives.
\<close>

definition expansion_of ::
  "(string \<Rightarrow> CombinedResult list) \<Rightarrow> string \<Rightarrow> CombinedResult \<Rightarrow> CombinedResult list" where
  "expansion_of discover query r =
     r # (if expansion_triggered (enrichment r) query then discover (object_number (item r))
          else [])"

text \<open>The best score of a non-empty list of choices, and the items the threshold keeps.\<close>

definition best_score :: "(string \<Rightarrow> string \<Rightarrow> real) \<Rightarrow> string \<Rightarrow> string list \<Rightarrow> real" where
  "best_score scorer query choices = Max (scorer query ` set choices)"

definition retained :: "string \<Rightarrow> SMKItem list \<Rightarrow> SMKItem list" where
  "retained query items = filter (\<lambda>it. 80 \<le> best_score ratio query (titles it)) items"

text \<open>Concrete inputs used below.\<close>

definition blank_item :: SMKItem where
  "blank_item = \<lparr>object_number = ''KMS1'', titles = [], creator = '''',
                  image_thumbnail = None, description = Some ''''\<rparr>"

definition rose_garden :: SMKItem where
  "rose_garden = \<lparr>object_number = ''KMS2'', titles = [''Have'', ''A Rose Garden''],
                   creator = ''Rosenberg'', image_thumbnail = None,
                   description = Some ''Roses in a garden''\<rparr>"

definition rose_notes :: EnrichmentData where
  "rose_notes = \<lparr>kalai_navn = None, aghtsera = Some [''en have'', ''en ROSE i haven'']\<rparr>"

definition rose_item :: SMKItem where
  "rose_item = \<lparr>object_number = ''KMS3'', titles = [''Red Rose''], creator = ''Anon'',
                 image_thumbnail = None, description = None\<rparr>"

definition untitled_item :: SMKItem where
  "untitled_item = \<lparr>object_number = ''KMS4'', titles = [], creator = ''Anon'',
                     image_thumbnail = None, description = None\<rparr>"

definition rose_world :: world where
  "rose_world =
     \<lparr>smk_api = (\<lambda>q. Reply 200 (Valid [rose_item])),
      enrichment_api = (\<lambda>n. Reply 200 (Valid EnrichmentData_empty))\<rparr>"

text \<open>
  A catalog of two items; the enrichment service knows the second and answers 500 for
  every other object number.
\<close>

definition garden_world :: world where
  "garden_world =
     \<lparr>smk_api = (\<lambda>q. Reply 200 (Valid [rose_item, rose_garden])),
      enrichment_api =
        (\<lambda>n. if n = ''KMS2'' then Reply 200 (Valid rose_notes) else Reply 500 NotJson)\<rparr>"

text \<open>A catalog whose second item has no title.\<close>

definition untitled_world :: world where
  "untitled_world =
     \<lparr>smk_api = (\<lambda>q. Reply 200 (Valid [rose_item, untitled_item])),
      enrichment_api = (\<lambda>n. Reply 200 (Valid EnrichmentData_empty))\<rparr>"

text \<open>
  A catalog of three items, the first and the last with the same score for the query
  \<^verbatim>\<open>Rose\<close>; the enrichment service as before.
\<close>

definition white_rose :: SMKItem where
  "white_rose = \<lparr>object_number = ''KMS5'', titles = [''White Rose''], creator = ''Anon'',
                  image_thumbnail = None, description = None\<rparr>"

definition tie_world :: world where
  "tie_world =
     \<lparr>smk_api = (\<lambda>q. Reply 200 (Valid [rose_item, rose_garden, white_rose])),
      enrichment_api =
        (\<lambda>n. if n = ''KMS2'' then Reply 200 (Valid rose_notes) else Reply 500 NotJson)\<rparr>"

text \<open>An enrichment service that answers with status 300 and a well-formed body.\<close>

definition redirect_world :: world where
  "redirect_world =
     \<lparr>smk_api = (\<lambda>q. Reply 200 (Valid [rose_garden])),
      enrichment_api = (\<lambda>n. Reply 300 (Valid rose_notes))\<rparr>"

section \<open>Strings: the substring test\<close>

lemma startswith_iff_prefix: "startswith s p \<longleftrightarrow> prefix p s"
  by (induction s p rule: startswith.induct) auto

lemma str_in_iff_sublist: "str_in needle haystack \<longleftrightarrow> sublist needle haystack"
  by (induction haystack) (simp_all add: startswith_iff_prefix sublist_Cons_right)

lemma str_in_empty_needle: "str_in [] haystack"
  by (simp add: str_in_iff_sublist)

lemma title_loop_eq:
  "title_loop q ts score =
     score + (if \<exists>t\<in>set ts. str_in q (lower t) then 0.5 else 0)"
  by (induction ts) simp_all

lemma desc_loop_eq:
  "desc_loop q ds score =
     score + (if \<exists>d\<in>set ds. str_in q (lower d) then 0.2 else 0)"
  by (induction ds) simp_all

lemma desc_matches_iff:
  "desc_matches query ds \<longleftrightarrow> (\<exists>d\<in>set ds. str_in (lower query) (lower d))"
  by (induction ds) simp_all

section \<open>Relevance score\<close>

lemma calculate_relevance_unfold:
  "calculate_relevance it enr query =
     min 1 (title_contribution it query + creator_contribution it query
            + description_contribution it query + enrichment_contribution enr query)"
proof -
  let ?q = "lower query"
  have t: "title_loop ?q (titles it) 0 = title_contribution it query"
    by (simp add: title_loop_eq title_contribution_def)
  have c: "(if str_in ?q (lower (creator it)) then s + 0.3 else s)
             = s + creator_contribution it query" for s :: real
    by (simp add: creator_contribution_def)
  have d: "(case description it of
              None \<Rightarrow> s
            | Some d \<Rightarrow> if d \<noteq> [] \<and> str_in ?q (lower d) then s + 0.2 else s)
             = s + description_contribution it query" for s :: real
    by (simp add: description_contribution_def split: option.split)
  have e: "(case aghtsera enr of
              None \<Rightarrow> s
            | Some descs \<Rightarrow> if descs \<noteq> [] then desc_loop ?q descs s else s)
             = s + enrichment_contribution enr query" for s :: real
    by (simp add: enrichment_contribution_def desc_loop_eq split: option.split)
  show ?thesis
    unfolding calculate_relevance_def Let_def t c d e ..
qed

lemma relevance_claimed_nonempty_query:
  assumes "query \<noteq> []"
  shows "calculate_relevance it enr query = claimed_relevance it enr query"
proof -
  have "\<not> str_in (lower query) (lower [])"
    using assms by (simp add: lower_def)
  then have "description_contribution it query = description_contribution_claimed it query"
    by (auto simp: description_contribution_def description_contribution_claimed_def
        split: option.splits)
  then show ?thesis
    by (simp add: calculate_relevance_unfold claimed_relevance_def)
qed

lemma contributions_nonneg:
  "0 \<le> title_contribution it query" "0 \<le> creator_contribution it query"
  "0 \<le> description_contribution it query" "0 \<le> enrichment_contribution enr query"
  by (simp_all add: title_contribution_def creator_contribution_def
      description_contribution_def enrichment_contribution_def split: option.split)

lemma calculate_relevance_range:
  "0 \<le> calculate_relevance it enr query \<and> calculate_relevance it enr query \<le> 1"
proof -
  have "0 \<le> title_contribution it query + creator_contribution it query
            + description_contribution it query + enrichment_contribution enr query"
    by (intro add_nonneg_nonneg contributions_nonneg)
  then show ?thesis
    unfolding calculate_relevance_unfold by simp
qed


text \<open>
  Claim C1, as stated: the score is the sum, clamped at 1, of 0.5 for a title that contains
  the query, 0.3 for the creator, 0.2 for a description that is present and contains it,
  and 0.2 for a present, non-empty enrichment description list with a matching entry.
  As stated this fails: for the empty query and a description that is the empty string the
  description is present and contains the query, yet the code adds nothing for it, since
  it tests the description for truth first.
\<close>

theorem relevance_claimed_counterexample:
  "calculate_relevance blank_item EnrichmentData_empty '''' = 3 / 10 \<and>
   claimed_relevance blank_item EnrichmentData_empty '''' = 1 / 2"
  by code_simp

text \<open>
  Claim C1, amended: the score is the sum, clamped at 1, of the same four contributions,
  the one of the description being given only when the description is present, not the
  empty string, and contains the query.
\<close>

theorem relevance_is_clamped_sum:
  "calculate_relevance it enr query =
     min 1 (title_contribution it query + creator_contribution it query
            + description_contribution it query + enrichment_contribution enr query)"
  by (rule calculate_relevance_unfold)

theorem relevance_is_clamped_sum_witness:
  "(\<exists>t\<in>set (titles rose_garden). str_in (lower ''Rose'') (lower t)) \<and>
   (\<exists>d\<in>set (the (aghtsera rose_notes)). str_in (lower ''Rose'') (lower d)) \<and>
   title_contribution rose_garden ''Rose'' + creator_contribution rose_garden ''Rose''
     + description_contribution rose_garden ''Rose''
     + enrichment_contribution rose_notes ''Rose'' = 6 / 5 \<and>
   calculate_relevance rose_garden rose_notes ''Rose'' = 1"
proof -
  have a: "\<exists>t\<in>set (titles rose_garden). str_in (lower ''Rose'') (lower t)"
    by code_simp
  have b: "\<exists>d\<in>set (the (aghtsera rose_notes)). str_in (lower ''Rose'') (lower d)"
    by code_simp
  have c: "title_contribution rose_garden ''Rose'' + creator_contribution rose_garden ''Rose''
     + description_contribution rose_garden ''Rose''
     + enrichment_contribution rose_notes ''Rose'' = 6 / 5"
    by code_simp
  show ?thesis
    using a b c relevance_is_clamped_sum [of rose_garden rose_notes "''Rose''"] by simp
qed

section \<open>Query normaliser: results\<close>

lemma get_search_query_with_id: "get_search_query_with table query = query"
  by (simp add: get_search_query_with_def)


text \<open>
  Claim C7: the query normaliser returns its input, whatever the synonym table holds and
  whether or not one of its keys occurs in the lowercased query; the OR-expression it
  builds is not returned.
\<close>

theorem get_search_query_returns_input:
  "get_search_query_with table query = query \<and> get_search_query query = query"
  by (simp add: get_search_query_def get_search_query_with_id)

theorem get_search_query_returns_input_witness:
  "str_in ''blomst'' (lower ''En Blomst'') \<and>
   synonym_loop synonyms (lower ''En Blomst'')
     = ''blomst OR plante OR flora OR rose OR tulipan OR lilje'' \<and>
   get_search_query ''En Blomst'' = ''En Blomst''"
proof -
  have a: "str_in ''blomst'' (lower ''En Blomst'')"
    by code_simp
  have b: "synonym_loop synonyms (lower ''En Blomst'')
             = ''blomst OR plante OR flora OR rose OR tulipan OR lilje''"
    by code_simp
  show ?thesis
    using a b get_search_query_returns_input [of synonyms "''En Blomst''"] by simp
qed

section \<open>Fuzzy stage\<close>

lemma extractOne_Nil: "extractOne scorer query [] = None"
  by (simp add: extractOne_def)

lemma fold_max_eq_Max:
  "fold (\<lambda>t m. max m (f t)) ts (s :: real) = Max (insert s (f ` set ts))"
proof (induction ts arbitrary: s)
  case Nil
  show ?case by simp
next
  case (Cons t ts)
  have "Max (insert (max s (f t)) (f ` set ts)) = Max (insert s (insert (f t) (f ` set ts)))"
  proof (cases "set ts = {}")
    case True
    then show ?thesis by simp
  next
    case False
    then have ne: "f ` set ts \<noteq> {}" by simp
    have "Max (insert (max s (f t)) (f ` set ts)) = max (max s (f t)) (Max (f ` set ts))"
      using ne by (intro Max_insert) simp_all
    moreover have "Max (insert (f t) (f ` set ts)) = max (f t) (Max (f ` set ts))"
      using ne by (intro Max_insert) simp_all
    moreover have "Max (insert s (insert (f t) (f ` set ts)))
                     = max s (Max (insert (f t) (f ` set ts)))"
      by (intro Max_insert) simp_all
    ultimately show ?thesis
      by (simp only: max.assoc)
  qed
  with Cons.IH [of "max s (f t)"] show ?case by simp
qed

lemma extractOne_loop_Some:
  "\<exists>c k. extractOne_loop scorer query ts i (Some (c0, s0, k0))
           = Some (c, fold (\<lambda>t m. max m (scorer query t)) ts s0, k)"
proof (induction ts arbitrary: i c0 s0 k0)
  case Nil
  show ?case by simp
next
  case (Cons t ts)
  show ?case
  proof (cases "s0 < scorer query t")
    case True
    then have "max s0 (scorer query t) = scorer query t" by simp
    with Cons.IH [of "Suc i" t "scorer query t" i] True show ?thesis
      by (simp add: Let_def)
  next
    case False
    then have "max s0 (scorer query t) = s0" by simp
    with Cons.IH [of "Suc i" c0 s0 k0] False show ?thesis
      by (simp add: Let_def)
  qed
qed

lemma extractOne_best:
  assumes "choices \<noteq> []"
  shows "\<exists>c k. extractOne scorer query choices = Some (c, best_score scorer query choices, k)"
proof -
  obtain t ts where ch: "choices = t # ts"
    using assms by (cases choices) auto
  have "fold (\<lambda>t m. max m (scorer query t)) ts (scorer query t)
          = best_score scorer query choices"
    by (simp add: fold_max_eq_Max ch best_score_def)
  then show ?thesis
    using extractOne_loop_Some [of scorer query ts "Suc 0" t "scorer query t" 0]
    by (simp add: ch extractOne_def Let_def)
qed

lemma fuzzy_loop_titled:
  assumes "\<forall>it\<in>set items. titles it \<noteq> []"
  shows "fuzzy_loop query items acc = Inr (acc @ retained query items)"
  using assms
proof (induction items arbitrary: acc)
  case Nil
  show ?case by (simp add: retained_def)
next
  case (Cons a items)
  have "titles a \<noteq> []" using Cons.prems by simp
  then obtain c k where
    e: "extractOne ratio query (titles a) = Some (c, best_score ratio query (titles a), k)"
    using extractOne_best [of "titles a" ratio query] by blast
  have ih: "fuzzy_loop query items acc' = Inr (acc' @ retained query items)" for acc'
    using Cons.IH Cons.prems by simp
  show ?case
    by (simp add: e ih retained_def)
qed

lemma fuzzy_stage_titled:
  assumes "\<forall>it\<in>set items. titles it \<noteq> []"
  shows "fuzzy_stage query items
           = Inr (if retained query items = [] then items else retained query items)"
  by (simp add: fuzzy_stage_def fuzzy_loop_titled [OF assms])

lemma fuzzy_loop_untitled:
  assumes "it \<in> set items" and "titles it = []"
  shows "fuzzy_loop query items acc = Inl TypeError"
  using assms(1)
proof (induction items arbitrary: acc)
  case Nil
  then show ?case by simp
next
  case (Cons a items)
  show ?case
  proof (cases "titles a = []")
    case True
    then show ?thesis by (simp add: extractOne_Nil)
  next
    case False
    then have "it \<in> set items" using Cons.prems assms(2) by auto
    then have ih: "fuzzy_loop query items acc' = Inl TypeError" for acc'
      by (rule Cons.IH)
    show ?thesis
      by (simp add: ih split: option.split prod.split)
  qed
qed

lemma fuzzy_stage_untitled:
  assumes "it \<in> set items" and "titles it = []"
  shows "fuzzy_stage query items = Inl TypeError"
  by (simp add: fuzzy_stage_def fuzzy_loop_untitled [OF assms])

lemma fuzzy_stage_titled_nonempty:
  assumes "\<forall>it\<in>set items. titles it \<noteq> []" and "items \<noteq> []"
  shows "\<exists>out. fuzzy_stage query items = Inr out \<and> out \<noteq> []"
  using assms(2) by (simp add: fuzzy_stage_titled [OF assms(1)])

text \<open>
  The ratio in closed form and on its scale; whatever the characters, a string of four
  characters against one of eight stays below 80.
\<close>

lemma lcs_len_le: "lcs_len s t \<le> length s \<and> lcs_len s t \<le> length t"
  by (induction s t rule: lcs_len.induct) auto

lemma ratio_arith:
  fixes m d l :: real
  assumes "0 < m" and "d = m - 2 * l"
  shows "(1 - d / m) * 100 = 200 * l / m"
  using assms by (simp add: field_simps)

lemma ratio_closed_form:
  "ratio s t =
     (if length s + length t = 0 then 100
      else 200 * real (lcs_len s t) / real (length s + length t))"
proof (cases "length s + length t = 0")
  case True
  then show ?thesis by (simp add: ratio_def)
next
  case False
  define m where "m = length s + length t"
  have m2: "m \<noteq> 0"
    unfolding m_def by (rule False)
  then have m1: "0 < real m"
    by simp
  have le: "2 * lcs_len s t \<le> m"
    unfolding m_def using lcs_len_le [of s t] by linarith
  have d: "real (indel_distance s t) = real m - 2 * real (lcs_len s t)"
    unfolding indel_distance_def m_def [symmetric] using le by (simp add: of_nat_diff)
  have "ratio s t = (1 - real (indel_distance s t) / real m) * 100"
    unfolding ratio_def Let_def m_def [symmetric] using m2 by simp
  also have "\<dots> = 200 * real (lcs_len s t) / real m"
    using m1 d by (rule ratio_arith)
  finally show ?thesis
    using m2 unfolding m_def by simp
qed

lemma ratio_range: "0 \<le> ratio s t \<and> ratio s t \<le> 100"
proof (cases "length s + length t = 0")
  case True
  then show ?thesis by (simp add: ratio_def)
next
  case False
  define m where "m = length s + length t"
  have m2: "m \<noteq> 0"
    unfolding m_def by (rule False)
  then have m1: "0 < real m"
    by simp
  have le: "2 * real (lcs_len s t) \<le> real m"
    unfolding m_def using lcs_len_le [of s t] by linarith
  have r: "ratio s t = 200 * real (lcs_len s t) / real m"
    using m2 unfolding m_def by (simp add: ratio_closed_form)
  have "200 * real (lcs_len s t) / real m \<le> 100"
    using le m1 by (simp add: field_simps)
  moreover have "0 \<le> 200 * real (lcs_len s t) / real m"
    by simp
  ultimately show ?thesis
    unfolding r by simp
qed

lemma ratio_short_against_long:
  assumes "length s = 4" and "length t = 8"
  shows "ratio s t \<le> 200 / 3"
proof -
  have "real (lcs_len s t) \<le> 4"
    using lcs_len_le [of s t] assms by simp
  then show ?thesis
    by (simp add: ratio_closed_form assms)
qed


lemma ratio_rose: "ratio ''rose'' ''Red Rose'' = 50"
  by code_simp

lemma ratio_rose_case_folded: "ratio (lower ''rose'') (lower ''Red Rose'') = 200 / 3"
  by code_simp


text \<open>
  Claim C3: for a non-empty list of catalog items the fuzzy stage returns the items whose
  best title ratio is at least 80, or the whole list when there is none, so it never
  returns an empty list. For lists in which every item has a title this is
  \<open>fuzzy_stage_titled\<close> and \<open>fuzzy_stage_titled_nonempty\<close> above. The code does not
  do it for every list: with an item that has no title the stage raises instead of
  returning, even when another item passes the threshold. Here the first item has the
  query as its title (ratio 100) and the second has no title.
\<close>

theorem fuzzy_stage_raises_on_untitled_item:
  "fuzzy_stage ''Red Rose'' [rose_item] = Inr [rose_item] \<and>
   best_score ratio ''Red Rose'' (titles rose_item) = 100 \<and>
   fuzzy_stage ''Red Rose'' [rose_item, untitled_item] = Inl TypeError"
  by code_simp

section \<open>Enrichment client\<close>

lemma fetch_enrichment_data_eq:
  "fetch_enrichment_data w n = Inr (enrichment_for w n)"
  by (simp add: fetch_enrichment_data_def enrichment_for_def
      split: sum.split py_exception.split)

lemma enrichment_for_cases:
  "enrichment_for w n =
     (case enrichment_api w n of
        NoReply \<Rightarrow> EnrichmentData_empty
      | Reply code b \<Rightarrow>
          if raises_for_status code then EnrichmentData_empty
          else (case b of Valid d \<Rightarrow> d | _ \<Rightarrow> EnrichmentData_empty))"
  by (simp add: enrichment_for_def fetch_enrichment_data_try_def
      split: reply.split body.split)


text \<open>
  Claim C4, as stated: \<^verbatim>\<open>fetch_enrichment_data\<close> never hands an exception to its caller,
  and any failed request, any status that is not a success, and any malformed payload
  gives the enrichment with both fields absent. As stated this fails for the statuses
  that are no success and that \<^verbatim>\<open>raise_for_status\<close> lets through (those outside
  400 .. 599): for a reply with status 300 and a well-formed body the result is the
  enrichment of the body.
\<close>

theorem non_success_status_counterexample:
  "non_success_status 300 \<and>
   enrichment_api redirect_world ''KMS2'' = Reply 300 (Valid rose_notes) \<and>
   fetch_enrichment_data redirect_world ''KMS2'' = Inr rose_notes \<and>
   aghtsera rose_notes \<noteq> aghtsera EnrichmentData_empty"
  by code_simp

text \<open>
  Claim C4, amended: \<^verbatim>\<open>fetch_enrichment_data\<close> never hands an exception to its caller.
  Whatever the \<^verbatim>\<open>try\<close> block raises, a failed request, a status that
  \<^verbatim>\<open>raise_for_status\<close> rejects (the 4xx and 5xx codes), a body that is not JSON or that
  the model rejects, the result is the enrichment with both fields absent; a reply with
  any other status and a well-formed body gives the enrichment of the body.
\<close>

theorem fetch_enrichment_absorbs_failures:
  "(\<exists>d. fetch_enrichment_data w n = Inr d) \<and>
   (\<forall>e. fetch_enrichment_data_try w n = Inl e \<longrightarrow>
        fetch_enrichment_data w n = Inr EnrichmentData_empty) \<and>
   (enrichment_api w n = NoReply \<longrightarrow> fetch_enrichment_data w n = Inr EnrichmentData_empty) \<and>
   (\<forall>code b. enrichment_api w n = Reply code b \<and> raises_for_status code \<longrightarrow>
        fetch_enrichment_data w n = Inr EnrichmentData_empty) \<and>
   (\<forall>code. enrichment_api w n = Reply code NotJson \<longrightarrow>
        fetch_enrichment_data w n = Inr EnrichmentData_empty) \<and>
   (\<forall>code. enrichment_api w n = Reply code Invalid \<longrightarrow>
        fetch_enrichment_data w n = Inr EnrichmentData_empty) \<and>
   (\<forall>code d. enrichment_api w n = Reply code (Valid d) \<and> \<not> raises_for_status code \<longrightarrow>
        fetch_enrichment_data w n = Inr d) \<and>
   kalai_navn EnrichmentData_empty = None \<and> aghtsera EnrichmentData_empty = None"
proof -
  have 1: "\<exists>d. fetch_enrichment_data w n = Inr d"
    by (simp add: fetch_enrichment_data_eq)
  have 2: "fetch_enrichment_data w n = Inr EnrichmentData_empty"
    if "fetch_enrichment_data_try w n = Inl e" for e
    using that by (simp add: fetch_enrichment_data_eq enrichment_for_def)
  have 3: "fetch_enrichment_data w n = Inr EnrichmentData_empty"
    if "enrichment_api w n = NoReply"
    using that by (simp add: fetch_enrichment_data_eq enrichment_for_cases)
  have 4: "fetch_enrichment_data w n = Inr EnrichmentData_empty"
    if "enrichment_api w n = Reply code b \<and> raises_for_status code" for code b
    using that by (simp add: fetch_enrichment_data_eq enrichment_for_cases)
  have 5: "fetch_enrichment_data w n = Inr EnrichmentData_empty"
    if "enrichment_api w n = Reply code NotJson" for code
    using that by (simp add: fetch_enrichment_data_eq enrichment_for_cases)
  have 6: "fetch_enrichment_data w n = Inr EnrichmentData_empty"
    if "enrichment_api w n = Reply code Invalid" for code
    using that by (simp add: fetch_enrichment_data_eq enrichment_for_cases)
  have 7: "fetch_enrichment_data w n = Inr d"
    if "enrichment_api w n = Reply code (Valid d) \<and> \<not> raises_for_status code" for code d
    using that by (simp add: fetch_enrichment_data_eq enrichment_for_cases)
  have 8: "kalai_navn EnrichmentData_empty = None \<and> aghtsera EnrichmentData_empty = None"
    by (simp add: EnrichmentData_empty_def)
  from 1 2 3 4 5 6 7 8 show ?thesis by blast
qed

theorem fetch_enrichment_absorbs_failures_witness:
  "enrichment_api garden_world ''KMS3'' = Reply 500 NotJson \<and> raises_for_status 500 \<and>
   fetch_enrichment_data_try garden_world ''KMS3'' = Inl RequestException \<and>
   fetch_enrichment_data garden_world ''KMS3'' = Inr EnrichmentData_empty \<and>
   enrichment_api garden_world ''KMS2'' = Reply 200 (Valid rose_notes) \<and>
   \<not> raises_for_status 200 \<and>
   fetch_enrichment_data garden_world ''KMS2'' = Inr rose_notes"
proof -
  have a: "enrichment_api garden_world ''KMS3'' = Reply 500 NotJson"
    by code_simp
  have b: "raises_for_status 500"
    by code_simp
  have c: "fetch_enrichment_data_try garden_world ''KMS3'' = Inl RequestException"
    by code_simp
  have d: "enrichment_api garden_world ''KMS2'' = Reply 200 (Valid rose_notes)"
    by code_simp
  have e: "\<not> raises_for_status 200"
    by code_simp
  show ?thesis
    using a b c d e fetch_enrichment_absorbs_failures [of garden_world "''KMS3''"]
      fetch_enrichment_absorbs_failures [of garden_world "''KMS2''"]
    by blast
qed

section \<open>Sorting\<close>

lemma sort_reverse_sorted:
  "sorted_wrt (\<lambda>a b. relevance b \<le> relevance a) (sort_reverse rs)"
proof -
  have "sorted (map relevance (sort_key relevance (rev rs)))"
    by (rule sorted_sort_key)
  then have "sorted_wrt (\<lambda>a b. relevance a \<le> relevance b) (sort_key relevance (rev rs))"
    by (simp add: sorted_map)
  then show ?thesis
    by (simp add: sort_reverse_def sorted_wrt_rev)
qed

lemma sort_reverse_stable:
  "filter (\<lambda>r. relevance r = k) (sort_reverse rs) = filter (\<lambda>r. relevance r = k) rs"
  by (simp add: sort_reverse_def rev_filter [symmetric] sort_key_stable)

lemma mset_sort_reverse: "mset (sort_reverse rs) = mset rs"
  by (simp add: sort_reverse_def)

lemma set_sort_reverse: "set (sort_reverse rs) = set rs"
  by (simp add: sort_reverse_def)

lemma sort_reverse_adjacent:
  assumes "Suc i < length (sort_reverse rs)"
  shows "relevance (sort_reverse rs ! Suc i) \<le> relevance (sort_reverse rs ! i)"
  using sort_reverse_sorted [of rs] assms
  by (simp add: sorted_wrt_iff_nth_less)

text \<open>The scoring loop keeps the order of the candidates.\<close>

lemma results_loop_eq:
  "results_loop w query its acc = Inr (acc @ map (combined w query) its)"
  by (induction its arbitrary: acc)
     (simp_all add: fetch_enrichment_data_eq combined_def Let_def)

section \<open>Expansion: what its text says\<close>

text \<open>
  Claim C6 says that the expansion returns its input list, since the discovery of related
  works finds none. The function it speaks of, \<^verbatim>\<open>filter_and_expand_results\<close>, is the one
  Python does not accept, so nothing is proved of its runs. Of its text this much holds:
  the discovery finds nothing, and a loop that wrote, for each result, the result and what
  the discovery finds for it would write the input list.
\<close>

lemma find_related_works_nothing: "find_related_works object_no = []"
  by (simp add: find_related_works_def)

lemma expansion_text_adds_nothing:
  "concat (map (expansion_of find_related_works query) items) = items"
  by (induction items) (simp_all add: expansion_of_def find_related_works_def)

section \<open>The search operation: results\<close>

lemma search_smk_ranked_eq:
  "search_smk_ranked w query =
     (case fetch_smk_data w query of
        Inl e \<Rightarrow> Inl e
      | Inr items \<Rightarrow>
          (case fuzzy_stage query items of
             Inl e \<Rightarrow> Inl e
           | Inr best \<Rightarrow> Inr (sort_reverse (map (combined w query) best))))"
  by (simp add: search_smk_ranked_def results_loop_eq split: sum.split)

lemma search_smk_ranked_Inr:
  assumes "search_smk_ranked w query = Inr rs"
  shows "\<exists>items best. fetch_smk_data w query = Inr items \<and> fuzzy_stage query items = Inr best
           \<and> rs = sort_reverse (map (combined w query) best)"
  using assms
  by (auto simp: search_smk_ranked_eq split: sum.splits)

lemma ranked_relevance_range:
  assumes "search_smk_ranked w query = Inr rs" and "r \<in> set rs"
  shows "0 \<le> relevance r \<and> relevance r \<le> 1"
proof -
  obtain best where "rs = sort_reverse (map (combined w query) best)"
    using search_smk_ranked_Inr [OF assms(1)] by blast
  then obtain it where "r = combined w query it"
    using assms(2) by (auto simp: set_sort_reverse)
  then show ?thesis
    by (simp add: combined_def calculate_relevance_range)
qed

lemma search_smk_Inr:
  assumes "search_smk expansion w query = Inr rs"
  shows "\<exists>ranked. search_smk_ranked w query = Inr ranked \<and> expansion ranked query = Inr rs"
  using assms
  by (auto simp: search_smk_def search_smk_try_def split: sum.splits py_exception.splits)

text \<open>
  Whatever line 215 does, as long as it hands on no result that it was not given, the
  results of the search carry a relevance between 0 and 1.
\<close>

lemma search_smk_relevance_range:
  assumes "search_smk expansion w query = Inr rs" and "r \<in> set rs"
    and "\<And>xs out. expansion xs query = Inr out \<Longrightarrow> set out \<subseteq> set xs"
  shows "0 \<le> relevance r \<and> relevance r \<le> 1"
proof -
  obtain ranked where a: "search_smk_ranked w query = Inr ranked"
    and b: "expansion ranked query = Inr rs"
    using search_smk_Inr [OF assms(1)] by blast
  have "r \<in> set ranked"
    using assms(3) [OF b] assms(2) by blast
  with a show ?thesis
    by (rule ranked_relevance_range)
qed


text \<open>
  Claim C5: in the sequence \<^verbatim>\<open>search_smk\<close> has after the scoring and the sort, the one it
  hands to the expansion at line 215, each result has a relevance at least that of its
  successor, and the results of any one relevance stand in the order of the candidates
  the scoring loop was given; the sort neither drops nor adds a result.
\<close>

theorem ranked_descending_stable:
  assumes "search_smk_ranked w query = Inr results"
  shows "(\<forall>i. Suc i < length results \<longrightarrow>
              relevance (results ! Suc i) \<le> relevance (results ! i)) \<and>
         (\<exists>items candidates.
            fetch_smk_data w query = Inr items \<and>
            fuzzy_stage query items = Inr candidates \<and>
            results_loop w query candidates [] = Inr (map (combined w query) candidates) \<and>
            (\<forall>k. filter (\<lambda>r. relevance r = k) results
                   = filter (\<lambda>r. relevance r = k) (map (combined w query) candidates)) \<and>
            mset results = mset (map (combined w query) candidates)) \<and>
         (\<forall>expansion. search_smk_try expansion w query = expansion results query)"
proof -
  obtain items candidates where
    f: "fetch_smk_data w query = Inr items" and
    z: "fuzzy_stage query items = Inr candidates" and
    r: "results = sort_reverse (map (combined w query) candidates)"
    using search_smk_ranked_Inr [OF assms] by blast
  have 1: "\<forall>i. Suc i < length results \<longrightarrow>
              relevance (results ! Suc i) \<le> relevance (results ! i)"
    unfolding r using sort_reverse_adjacent by blast
  have 2: "\<forall>k. filter (\<lambda>r. relevance r = k) results
                 = filter (\<lambda>r. relevance r = k) (map (combined w query) candidates)"
    unfolding r by (simp add: sort_reverse_stable)
  have 3: "mset results = mset (map (combined w query) candidates)"
    unfolding r by (rule mset_sort_reverse)
  have 4: "results_loop w query candidates [] = Inr (map (combined w query) candidates)"
    by (simp add: results_loop_eq)
  have 5: "\<forall>expansion. search_smk_try expansion w query = expansion results query"
    by (simp add: search_smk_try_def assms)
  from f z 1 2 3 4 5 show ?thesis by blast
qed

theorem ranked_descending_stable_witness:
  "fuzzy_stage ''Rose'' [rose_item, rose_garden, white_rose]
     = Inr [rose_item, rose_garden, white_rose] \<and>
   search_smk_ranked tie_world ''Rose''
     = Inr [combined tie_world ''Rose'' rose_garden, combined tie_world ''Rose'' rose_item,
            combined tie_world ''Rose'' white_rose] \<and>
   relevance (combined tie_world ''Rose'' rose_item)
     \<le> relevance (combined tie_world ''Rose'' rose_garden) \<and>
   relevance (combined tie_world ''Rose'' white_rose)
     \<le> relevance (combined tie_world ''Rose'' rose_item) \<and>
   relevance (combined tie_world ''Rose'' rose_item) = 1 / 2 \<and>
   relevance (combined tie_world ''Rose'' white_rose) = 1 / 2"
proof -
  let ?g = "combined tie_world ''Rose'' rose_garden"
  let ?r = "combined tie_world ''Rose'' rose_item"
  let ?w = "combined tie_world ''Rose'' white_rose"
  have z: "fuzzy_stage ''Rose'' [rose_item, rose_garden, white_rose]
             = Inr [rose_item, rose_garden, white_rose]"
    by code_simp
  have a: "search_smk_ranked tie_world ''Rose'' = Inr [?g, ?r, ?w]"
    by code_simp
  have v: "relevance ?r = 1 / 2" "relevance ?w = 1 / 2"
    by code_simp+
  from ranked_descending_stable [OF a]
  have adj: "Suc i < length [?g, ?r, ?w] \<Longrightarrow>
               relevance ([?g, ?r, ?w] ! Suc i) \<le> relevance ([?g, ?r, ?w] ! i)" for i
    by blast
  have "relevance ([?g, ?r, ?w] ! Suc 0) \<le> relevance ([?g, ?r, ?w] ! 0)"
    by (rule adj) simp
  moreover have "relevance ([?g, ?r, ?w] ! Suc (Suc 0)) \<le> relevance ([?g, ?r, ?w] ! Suc 0)"
    by (rule adj) simp
  ultimately have "relevance ?r \<le> relevance ?g" and "relevance ?w \<le> relevance ?r"
    by simp_all
  with z a v show ?thesis by simp
qed


text \<open>
  Claim C2: the scorer's result lies between 0 and 1, although the contributions can add
  up to 1.2, and so does the relevance of every result \<^verbatim>\<open>search_smk\<close> builds
  (main.py:208-214), for every query and every reply of the two services.
\<close>

theorem relevance_in_unit_interval:
  "0 \<le> calculate_relevance it enr query \<and> calculate_relevance it enr query \<le> 1 \<and>
   (\<forall>rs. search_smk_ranked w query = Inr rs \<longrightarrow>
         (\<forall>r\<in>set rs. 0 \<le> relevance r \<and> relevance r \<le> 1))"
  using calculate_relevance_range ranked_relevance_range by blast

theorem relevance_in_unit_interval_witness:
  "search_smk_ranked garden_world ''Rose''
     = Inr [combined garden_world ''Rose'' rose_garden, combined garden_world ''Rose'' rose_item] \<and>
   title_contribution rose_garden ''Rose'' + creator_contribution rose_garden ''Rose''
     + description_contribution rose_garden ''Rose''
     + enrichment_contribution (enrichment_for garden_world ''KMS2'') ''Rose'' = 6 / 5 \<and>
   0 \<le> relevance (combined garden_world ''Rose'' rose_garden) \<and>
   relevance (combined garden_world ''Rose'' rose_garden) \<le> 1 \<and>
   0 \<le> relevance (combined garden_world ''Rose'' rose_item) \<and>
   relevance (combined garden_world ''Rose'' rose_item) \<le> 1"
proof -
  have a: "search_smk_ranked garden_world ''Rose''
     = Inr [combined garden_world ''Rose'' rose_garden, combined garden_world ''Rose'' rose_item]"
    by code_simp
  have b: "title_contribution rose_garden ''Rose'' + creator_contribution rose_garden ''Rose''
     + description_contribution rose_garden ''Rose''
     + enrichment_contribution (enrichment_for garden_world ''KMS2'') ''Rose'' = 6 / 5"
    by code_simp
  from relevance_in_unit_interval [where w = garden_world and query = "''Rose''"] a
  have "\<forall>r\<in>set [combined garden_world ''Rose'' rose_garden,
                  combined garden_world ''Rose'' rose_item]. 0 \<le> relevance r \<and> relevance r \<le> 1"
    by blast
  with a b show ?thesis by simp
qed

text \<open>
  Claim C9: when the catalog reply holds an item without a title, the best-match lookup
  for that item gives \<^verbatim>\<open>None\<close>, indexing it raises, the fuzzy stage returns no list, and
  the search ends with an \<^verbatim>\<open>HTTPException\<close> of status 500, whatever the call of line 215
  would have done.
\<close>

theorem empty_titles_abort_search:
  assumes "fetch_smk_data w query = Inr items" and "it \<in> set items" and "titles it = []"
  shows "extractOne ratio query (titles it) = None \<and>
         fuzzy_stage query items = Inl TypeError \<and>
         search_smk_ranked w query = Inl TypeError \<and>
         search_smk expansion w query = Inl (HTTPException 500 Unexpected_error)"
proof -
  have f: "fuzzy_stage query items = Inl TypeError"
    using assms(2,3) by (rule fuzzy_stage_untitled)
  have r: "search_smk_ranked w query = Inl TypeError"
    by (simp add: search_smk_ranked_eq assms(1) f)
  then have "search_smk_try expansion w query = Inl TypeError"
    by (simp add: search_smk_try_def)
  then have "search_smk expansion w query = Inl (HTTPException 500 Unexpected_error)"
    by (simp add: search_smk_def)
  with f r show ?thesis
    by (simp add: assms(3) extractOne_Nil)
qed

theorem empty_titles_abort_search_witness:
  "fetch_smk_data untitled_world ''Red Rose'' = Inr [rose_item, untitled_item] \<and>
   untitled_item \<in> set [rose_item, untitled_item] \<and> titles untitled_item = [] \<and>
   fuzzy_stage ''Red Rose'' [rose_item, untitled_item] = Inl TypeError \<and>
   (\<forall>expansion. search_smk expansion untitled_world ''Red Rose''
        = Inl (HTTPException 500 Unexpected_error))"
proof -
  have a: "fetch_smk_data untitled_world ''Red Rose'' = Inr [rose_item, untitled_item]"
    by code_simp
  have b: "untitled_item \<in> set [rose_item, untitled_item]"
    by simp
  have c: "titles untitled_item = []"
    by (simp add: untitled_item_def)
  show ?thesis
    using a b c empty_titles_abort_search [OF a b c] by simp
qed

text \<open>
  Claim C8, as stated: for the query \<^verbatim>\<open>rose\<close> and a catalog of one item titled
  \<^verbatim>\<open>Red Rose\<close>, the ratio of the query against the title is at least 80, so the threshold
  keeps the item. It is not: the longest common subsequence is \<^verbatim>\<open>ose\<close>, the ratio
  100 * 2 * 3 / (4 + 8) = 50. With both strings lowercased first it would be 200 / 3, and
  no pair of strings of these lengths reaches 80 (\<open>ratio_short_against_long\<close>).
\<close>

theorem rose_ratio_counterexample:
  "\<not> 80 \<le> ratio ''rose'' ''Red Rose''"
  by code_simp

text \<open>
  Claim C8, amended: for the query \<^verbatim>\<open>rose\<close> and a catalog reply of one item with the
  single title \<^verbatim>\<open>Red Rose\<close>, the creator \<^verbatim>\<open>Anon\<close>, no description and an enrichment
  with both fields absent, the ratio is 50, the threshold keeps no item, the fuzzy stage
  therefore returns the whole catalog reply, the relevance of the item is 0.5, and the
  sequence the search has built after the sort holds that one result with relevance 0.5.
  Nothing is said of the response: it depends on the call of line 215.
\<close>

theorem rose_scenario:
  assumes "titles it = [''Red Rose'']" and "creator it = ''Anon''" and "description it = None"
    and "fetch_smk_data w ''rose'' = Inr [it]"
    and "fetch_enrichment_data w (object_number it) = Inr EnrichmentData_empty"
  shows "ratio ''rose'' ''Red Rose'' = 50 \<and>
         fuzzy_loop ''rose'' [it] [] = Inr [] \<and>
         fuzzy_stage ''rose'' [it] = Inr [it] \<and>
         calculate_relevance it EnrichmentData_empty ''rose'' = 1 / 2 \<and>
         search_smk_ranked w ''rose''
           = Inr [\<lparr>item = it, enrichment = EnrichmentData_empty, relevance = 1 / 2\<rparr>]"
proof -
  have r: "ratio ''rose'' ''Red Rose'' = 50"
    by (rule ratio_rose)
  have l: "fuzzy_loop ''rose'' [it] [] = Inr []"
    by (simp add: assms(1) extractOne_def r)
  have s: "fuzzy_stage ''rose'' [it] = Inr [it]"
    unfolding fuzzy_stage_def l by simp
  have t: "str_in (lower ''rose'') (lower ''Red Rose'')"
    by code_simp
  have c: "\<not> str_in (lower ''rose'') (lower ''Anon'')"
    by code_simp
  have rel: "calculate_relevance it EnrichmentData_empty ''rose'' = 1 / 2"
    using t c
    by (simp add: calculate_relevance_def assms(1,2,3) EnrichmentData_empty_def)
  have e: "enrichment_for w (object_number it) = EnrichmentData_empty"
    using assms(5) by (simp add: fetch_enrichment_data_eq)
  have "search_smk_ranked w ''rose''
          = Inr [\<lparr>item = it, enrichment = EnrichmentData_empty, relevance = 1 / 2\<rparr>]"
    by (simp add: search_smk_ranked_eq assms(4) s combined_def e rel sort_reverse_def)
  with r l s rel show ?thesis by simp
qed

theorem rose_scenario_witness:
  "titles rose_item = [''Red Rose''] \<and> creator rose_item = ''Anon'' \<and>
   description rose_item = None \<and>
   fetch_smk_data rose_world ''rose'' = Inr [rose_item] \<and>
   fetch_enrichment_data rose_world (object_number rose_item) = Inr EnrichmentData_empty \<and>
   fuzzy_stage ''rose'' [rose_item] = Inr [rose_item] \<and>
   search_smk_ranked rose_world ''rose''
     = Inr [\<lparr>item = rose_item, enrichment = EnrichmentData_empty, relevance = 1 / 2\<rparr>]"
proof -
  have a: "titles rose_item = [''Red Rose'']" and b: "creator rose_item = ''Anon''"
    and c: "description rose_item = None"
    by (simp_all add: rose_item_def)
  have d: "fetch_smk_data rose_world ''rose'' = Inr [rose_item]"
    by code_simp
  have e: "fetch_enrichment_data rose_world (object_number rose_item) = Inr EnrichmentData_empty"
    by code_simp
  show ?thesis
    using a b c d e rose_scenario [OF a b c d e] by simp
qed

section \<open>What is read of the enrichment\<close>

lemma relevance_reads_aghtsera:
  "aghtsera e1 = aghtsera e2 \<Longrightarrow> calculate_relevance it e1 q = calculate_relevance it e2 q"
  by (simp add: calculate_relevance_def)

lemma trigger_reads_aghtsera:
  "aghtsera e1 = aghtsera e2 \<Longrightarrow> expansion_triggered e1 q = expansion_triggered e2 q"
  by (simp add: expansion_triggered_def)


text \<open>
  Claim C10: the score and the decision to expand read the enrichment through its
  description field only: two enrichments with the same description field, whatever
  their other field, give the same score for every item and query, the same decision, and
  the same related works after a result that carries them.
\<close>

theorem enrichment_read_through_description:
  assumes "aghtsera e1 = aghtsera e2"
  shows "calculate_relevance it e1 query = calculate_relevance it e2 query \<and>
         expansion_triggered e1 query = expansion_triggered e2 query \<and>
         tl (expansion_of discover query (r\<lparr>enrichment := e1\<rparr>))
           = tl (expansion_of discover query (r\<lparr>enrichment := e2\<rparr>))"
  using relevance_reads_aghtsera [OF assms] trigger_reads_aghtsera [OF assms]
  by (simp add: expansion_of_def)

theorem enrichment_read_through_description_witness:
  "aghtsera rose_notes = aghtsera (rose_notes\<lparr>kalai_navn := Some [''Rosa'']\<rparr>) \<and>
   kalai_navn rose_notes \<noteq> kalai_navn (rose_notes\<lparr>kalai_navn := Some [''Rosa'']\<rparr>) \<and>
   calculate_relevance rose_garden rose_notes ''Rose''
     = calculate_relevance rose_garden (rose_notes\<lparr>kalai_navn := Some [''Rosa'']\<rparr>) ''Rose'' \<and>
   expansion_triggered rose_notes ''Rose''
     = expansion_triggered (rose_notes\<lparr>kalai_navn := Some [''Rosa'']\<rparr>) ''Rose''"
proof -
  have a: "aghtsera rose_notes = aghtsera (rose_notes\<lparr>kalai_navn := Some [''Rosa'']\<rparr>)"
    by simp
  have b: "kalai_navn rose_notes \<noteq> kalai_navn (rose_notes\<lparr>kalai_navn := Some [''Rosa'']\<rparr>)"
    by (simp add: rose_notes_def)
  show ?thesis
    using a b enrichment_read_through_description [OF a, of rose_garden "''Rose''"] by simp
qed

end
